theory Spec2Isabelle
  imports
    Complex_Main
    "HOL-Library.Multiset"
    "HOL-Library.Char_ord"
    "HOL-Library.List_Lexorder"
begin

section \<open>Data model of app2.py\<close>

text \<open>
  The program is a pandas dashboard. A data frame is modelled as the list of its rows
  in row order, a row as a record of the columns the code reads. A column that the
  code derives row by row (\<open>category\<close>, \<open>potential_gain\<close>, \<open>value_sim\<close>,
  \<open>total_sim\<close>) is a function on the row. Numeric cells are real numbers, so the
  arithmetic below is exact, and no property below depends on how float64 rounds a
  sum. The dtype of a column (\<open>int64\<close> or \<open>float64\<close>) is modelled where the program's
  behaviour depends on it, in the simulation. A cell that pandas may leave empty (NaN)
  and that the code treats as such (\<open>fillna\<close>, \<open>np.nan\<close>) has an option type,
  \<open>None\<close> being NaN.
\<close>

subsection \<open>Constants (lines 10-26)\<close>

definition CATEGORY_LABELS :: "(string \<times> string) list" where
  "CATEGORY_LABELS =
    [(''Score in Publication'', ''Publication''),
     (''Score in HKI'', ''HKI''),
     (''Score in Research'', ''Research''),
     (''Score in Community Service'', ''Community Service''),
     (''Score in SDM'', ''SDM''),
     (''Score in Kelembagaan'', ''Kelembagaan'')]"

definition CATEGORY_ORDER :: "string list" where
  "CATEGORY_ORDER =
    [''Publication'', ''Research'', ''Community Service'', ''HKI'', ''SDM'', ''Kelembagaan'']"

subsection \<open>Sheet \<open>detail_kode\<close>\<close>

record detail =
  nama_afiliasi_d :: string
  kode :: string
  kategori_score :: string
  weight :: real
  value_d :: real
  total :: real

text \<open>
  \<open>df["category"] = df["kategori_score"].map(CATEGORY_LABELS)\<close>: a raw code that is
  not a key of the dictionary maps to NaN, without an error.
\<close>

definition category :: "detail \<Rightarrow> string option" where
  "category r = map_of CATEGORY_LABELS (kategori_score r)"

subsection \<open>Category aggregation (lines 42-50)\<close>

text \<open>
  \<open>groupby(["nama_afiliasi", "category"])["total"].sum()\<close> drops the rows whose
  group key is NaN and keeps one group per pair that occurs, in sorted key order;
  \<open>unstack(fill_value=0)\<close> turns the category level into columns and writes 0 where
  a pair has no group. The pivot is the list of its column labels and the list of its
  rows, each row an index label with one cell per column.
\<close>

definition group_total :: "detail list \<Rightarrow> string \<Rightarrow> string \<Rightarrow> real" where
  "group_total df a c =
     sum_list (map total (filter (\<lambda>r. nama_afiliasi_d r = a \<and> category r = Some c) df))"

definition pivot_columns :: "detail list \<Rightarrow> string list" where
  "pivot_columns df = sort (remdups (List.map_filter category df))"

definition pivot_index :: "detail list \<Rightarrow> string list" where
  "pivot_index df =
     sort (remdups (map nama_afiliasi_d (filter (\<lambda>r. category r \<noteq> None) df)))"

definition cat_pivot :: "detail list \<Rightarrow> string list \<times> (string \<times> real list) list" where
  "cat_pivot df =
     (pivot_columns df,
      map (\<lambda>a. (a, map (\<lambda>c. group_total df a c) (pivot_columns df))) (pivot_index df))"

text \<open>
  Reading a cell of the pivot by labels, \<open>cat_pivot.loc[a, c]\<close>: \<open>None\<close> stands for a
  label that the pivot does not have.
\<close>

definition pivot_cell :: "string list \<times> (string \<times> real list) list \<Rightarrow> string \<Rightarrow> string \<Rightarrow> real option" where
  "pivot_cell p a c =
     (case map_of (snd p) a of
        None \<Rightarrow> None
      | Some cells \<Rightarrow> map_of (zip (fst p) cells) c)"

subsection \<open>\<open>sort_values\<close>\<close>

text \<open>
  Every sort in the program is \<open>df.sort_values(col, ascending=False)\<close> (in the
  comparison view with \<open>key=lambda s: s.abs()\<close>), with no \<open>kind\<close> argument. pandas
  then sorts with its default kind \<open>quicksort\<close>: the result holds the same rows in
  descending key order, and the order among rows of equal key is not fixed (of the
  kinds pandas offers, only \<open>mergesort\<close> and \<open>stable\<close> are stable). The source does
  not determine more than that, so the sort is a parameter \<open>sort_values\<close> of each
  function that calls it, and \<open>sorted_descending\<close> says what a result of it is.
\<close>

definition sorted_descending :: "('a \<Rightarrow> real) \<Rightarrow> 'a list \<Rightarrow> 'a list \<Rightarrow> bool" where
  "sorted_descending key df out \<longleftrightarrow>
     mset out = mset df \<and> sorted_wrt (\<lambda>a b. key b \<le> key a) out"

text \<open>
  A sort that meets it and keeps rows of equal key in input order. It is what
  \<open>sort_values\<close> returns whenever no two rows have the same key, and it is used
  below on such inputs and on one input with equal keys, the rows X 100, Y 90, Z 90,
  W 80, which are in descending order already and which \<open>sort_values\<close> returns as
  they are.
\<close>

definition sort_keeping_ties :: "('a \<Rightarrow> real) \<Rightarrow> 'a list \<Rightarrow> 'a list" where
  "sort_keeping_ties key df = sort_key (\<lambda>r. - key r) df"

subsection \<open>Sheet \<open>afiliasi\<close>, ranking and gap to the top 10 (lines 52-74)\<close>








subsection \<open>\<open>get_high_leverage_metrics\<close> (lines 171-181)\<close>



subsection \<open>Simulation (lines 593-647 of \<open>main\<close>)\<close>

text \<open>\<open>s.isin(values)\<close> on one cell; a NaN cell is in no list of labels.\<close>

definition isin :: "string option \<Rightarrow> string list \<Rightarrow> bool" where
  "isin x vs = (case x of None \<Rightarrow> False | Some v \<Rightarrow> v \<in> set vs)"

text \<open>\<open>mask = df_sim["category"].isin(sim_categories)\<close>.\<close>

definition mask :: "string list \<Rightarrow> detail \<Rightarrow> bool" where
  "mask sim_categories r = isin (category r) sim_categories"

text \<open>\<open>(value_sim + delta_value).clip(upper=1.0)\<close> on the masked rows, \<open>value\<close> elsewhere.\<close>

definition value_sim :: "string list \<Rightarrow> real \<Rightarrow> detail \<Rightarrow> real" where
  "value_sim sim_categories delta_value r =
     (if mask sim_categories r then min (value_d r + delta_value) 1 else value_d r)"

definition total_sim :: "string list \<Rightarrow> real \<Rightarrow> detail \<Rightarrow> real" where
  "total_sim sim_categories delta_value r = weight r * value_sim sim_categories delta_value r"

record category_sim =
  category_s :: string
  original_total :: real
  simulated_total :: real
  change :: real
  change_percent :: "real option"

text \<open>\<open>groupby("category")[col].sum()\<close> at one group key.\<close>

definition category_sum :: "(detail \<Rightarrow> real) \<Rightarrow> detail list \<Rightarrow> string \<Rightarrow> real" where
  "category_sum col df c = sum_list (map col (filter (\<lambda>r. category r = Some c) df))"

definition sim_row :: "detail list \<Rightarrow> string list \<Rightarrow> real \<Rightarrow> string \<Rightarrow> category_sim" where
  "sim_row df sim_categories delta_value c =
     (let original = category_sum total df c;
          simulated = category_sum (total_sim sim_categories delta_value) df c
      in \<lparr>category_s = c, original_total = original, simulated_total = simulated,
          change = simulated - original,
          change_percent =
            (if original > 0 then Some ((simulated - original) / original * 100) else None)\<rparr>)"

text \<open>
  \<open>pd.read_excel\<close> gives a numeric column whose cells are all whole numbers the dtype
  \<open>int64\<close>, and \<open>float64\<close> otherwise.
\<close>

definition whole :: "real \<Rightarrow> bool" where
  "whole x \<longleftrightarrow> real_of_int \<lfloor>x\<rfloor> = x"

definition int64_column :: "(detail \<Rightarrow> real) \<Rightarrow> detail list \<Rightarrow> bool" where
  "int64_column col df \<longleftrightarrow> list_all (\<lambda>r. whole (col r)) df"

text \<open>
  The exceptions of pandas that the program can run into: \<open>InvalidIndexError\<close> in
  \<open>compare_universities_df\<close>, \<open>TypeError\<close> in the simulation.
\<close>

datatype error = InvalidIndexError | TypeError

text \<open>
  \<open>df_sim.loc[mask, "value_sim"] = ...\<close> writes float values into a copy of the
  \<open>value\<close> column. When that column is \<open>int64\<close>, pandas 3 accepts them only if each
  is a whole number, and raises \<open>TypeError\<close> otherwise.
\<close>

definition lossy_setitem :: "detail list \<Rightarrow> detail list \<Rightarrow> string list \<Rightarrow> real \<Rightarrow> bool" where
  "lossy_setitem df_detail df_sim sim_categories delta_value \<longleftrightarrow>
     int64_column value_d df_detail
     \<and> list_ex (\<lambda>r. mask sim_categories r \<and> \<not> whole (min (value_d r + delta_value) 1)) df_sim"

text \<open>
  What the simulation block does. It computes nothing when the selected affiliation
  has no row in the pivot (an info message) or when no category is selected (a
  warning), and it stops with the \<open>TypeError\<close> above. Otherwise there is one row per
  category that occurs among the affiliation's rows; both group-by series have these
  keys, so \<open>fillna(0)\<close> after \<open>concat\<close> fills nothing. The rows are ordered by the
  position of the category in \<open>CATEGORY_ORDER\<close>.
\<close>

datatype notice = Info_data_incomplete | Warning_no_category

definition simulate :: "detail list \<Rightarrow> string \<Rightarrow> string list \<Rightarrow> real \<Rightarrow>
    (notice + error) + category_sim list" where
  "simulate df_detail selected_affiliation sim_categories delta_value =
     (if selected_affiliation \<notin> set (pivot_index df_detail) then Inl (Inl Info_data_incomplete)
      else if sim_categories = [] then Inl (Inl Warning_no_category)
      else
        let df_aff_detail = filter (\<lambda>r. nama_afiliasi_d r = selected_affiliation) df_detail
        in if lossy_setitem df_detail df_aff_detail sim_categories delta_value
           then Inl (Inr TypeError)
           else Inr (map (sim_row df_aff_detail sim_categories delta_value)
                      (filter (\<lambda>c. c \<in> set (List.map_filter category df_aff_detail))
                         CATEGORY_ORDER)))"

subsection \<open>Sheet \<open>metrics_details\<close> and \<open>compare_universities_df\<close> (lines 213-255)\<close>

record metrics_detail =
  affiliation_name :: string
  code :: string
  name :: "string option"
  area :: "string option"
  sinta_v3_overall_value :: "real option"
  sinta_v3_overall_total :: "real option"
  sinta_v3_3yr_total :: "real option"

record comparison =
  code_c :: string
  name_c :: "string option"
  category_c :: "string option"
  score_selected :: real
  score_compare :: real
  diff_abs :: real
  diff_pct :: "real option"

text \<open>
  \<open>pd.merge(base, comp, on="code", how="outer")\<close>: the keys of both frames in sorted
  order; under each key every pair of a left row and a right row that carry it, and
  where one side has no such row, the rows of the other side with that side empty.
  A merged row is the key with the optional left and right source rows;
  \<open>side_rows\<close> are the rows of one side under a key, \<open>merge_key\<close> the merged rows
  under it.
\<close>

definition side_rows :: "metrics_detail list \<Rightarrow> string \<Rightarrow> metrics_detail option list" where
  "side_rows df k =
     (let rs = filter (\<lambda>r. code r = k) df in if rs = [] then [None] else map Some rs)"

definition merge_key :: "metrics_detail list \<Rightarrow> metrics_detail list \<Rightarrow> string \<Rightarrow>
    (string \<times> metrics_detail option \<times> metrics_detail option) list" where
  "merge_key base compb k =
     concat (map (\<lambda>l. map (\<lambda>r. (k, l, r)) (side_rows compb k)) (side_rows base k))"

definition merge_outer :: "metrics_detail list \<Rightarrow> metrics_detail list \<Rightarrow>
    (string \<times> metrics_detail option \<times> metrics_detail option) list" where
  "merge_outer base compb =
     concat (map (merge_key base compb) (sort (remdups (map code base @ map code compb))))"

text \<open>\<open>s.fillna(other)\<close> on one cell, with a cell and with a constant.\<close>

definition fillna :: "'a option \<Rightarrow> 'a option \<Rightarrow> 'a option" where
  "fillna x other = (case x of None \<Rightarrow> other | Some v \<Rightarrow> Some v)"

definition fillna0 :: "real option \<Rightarrow> real" where
  "fillna0 x = (case x of None \<Rightarrow> 0 | Some v \<Rightarrow> v)"

text \<open>
  One row of the result. \<open>name_map\<close> is \<open>df2.set_index("code")["name"]\<close>, looked up at
  the row's code; \<open>metric_col\<close> is the chosen score column.
\<close>

definition compare_row :: "(metrics_detail \<Rightarrow> real option) \<Rightarrow> (string \<Rightarrow> string option option) \<Rightarrow>
    string \<times> metrics_detail option \<times> metrics_detail option \<Rightarrow> comparison" where
  "compare_row metric_col name_map m =
     (case m of (k, l, r) \<Rightarrow>
        let selected = fillna0 (Option.bind l metric_col);
            compared = fillna0 (Option.bind r metric_col)
        in \<lparr>code_c = k,
            name_c = fillna (Option.bind l name) (case name_map k of None \<Rightarrow> None | Some n \<Rightarrow> n),
            category_c = fillna (Option.bind l area) (Option.bind r area),
            score_selected = selected,
            score_compare = compared,
            diff_abs = selected - compared,
            diff_pct = (if compared \<noteq> 0 then Some ((selected - compared) / compared * 100) else None)\<rparr>)"

text \<open>
  \<open>df["code"].map(name_map)\<close> maps through a Series indexed by the codes of \<open>df2\<close>;
  pandas raises \<open>InvalidIndexError\<close> when that index has a repeated label.
\<close>

definition compare_universities_df :: "metrics_detail list \<Rightarrow> string \<Rightarrow> string \<Rightarrow>
    (metrics_detail \<Rightarrow> real option) \<Rightarrow> error + comparison list" where
  "compare_universities_df df_md aff1 aff2 metric_col =
     (let df1 = filter (\<lambda>r. affiliation_name r = aff1) df_md;
          df2 = filter (\<lambda>r. affiliation_name r = aff2) df_md
      in if \<not> distinct (map code df2) then Inl InvalidIndexError
         else Inr (map (compare_row metric_col (map_of (map (\<lambda>r. (code r, name r)) df2)))
                    (merge_outer df1 df2)))"

subsection \<open>The comparison view (lines 919-937 of \<open>main\<close>)\<close>

text \<open>
  The category filter, the sort by \<open>|diff_abs|\<close>, \<open>head(show_n)\<close>, and then the three
  counts, taken on the frame that \<open>head\<close> returned. \<open>show_n\<close> is a number of rows (a
  slider from 10 to 100).
\<close>

definition compare_view :: "((comparison \<Rightarrow> real) \<Rightarrow> comparison list \<Rightarrow> comparison list) \<Rightarrow>
    comparison list \<Rightarrow> string list \<Rightarrow> nat \<Rightarrow> comparison list \<times> nat \<times> nat \<times> nat" where
  "compare_view sort_values df_comp0 cat_filter show_n =
     (let df_comp1 = (if cat_filter \<noteq> [] then filter (\<lambda>r. isin (category_c r) cat_filter) df_comp0
                      else df_comp0);
          df_comp2 = sort_values (\<lambda>r. \<bar>diff_abs r\<bar>) df_comp1;
          df_comp = take show_n df_comp2;
          better = length (filter (\<lambda>r. diff_abs r > 0) df_comp);
          worse = length (filter (\<lambda>r. diff_abs r < 0) df_comp);
          equal = length (filter (\<lambda>r. diff_abs r = 0) df_comp)
      in (df_comp, better, worse, equal))"

definition compare_tab :: "((comparison \<Rightarrow> real) \<Rightarrow> comparison list \<Rightarrow> comparison list) \<Rightarrow>
    metrics_detail list \<Rightarrow> string \<Rightarrow> string \<Rightarrow> (metrics_detail \<Rightarrow> real option) \<Rightarrow>
    string list \<Rightarrow> nat \<Rightarrow> error + comparison list \<times> nat \<times> nat \<times> nat" where
  "compare_tab sort_values df_md aff_a_upper aff_b_upper metric_col cat_filter show_n =
     (case compare_universities_df df_md aff_a_upper aff_b_upper metric_col of
        Inl e \<Rightarrow> Inl e
      | Inr df_comp \<Rightarrow> Inr (compare_view sort_values df_comp cat_filter show_n))"

text \<open>The three counts over a whole frame, for comparison with those of the view.\<close>

definition summary_counts :: "comparison list \<Rightarrow> nat \<times> nat \<times> nat" where
  "summary_counts df =
     (length (filter (\<lambda>r. score_selected r > score_compare r) df),
      length (filter (\<lambda>r. score_selected r < score_compare r) df),
      length (filter (\<lambda>r. score_selected r = score_compare r) df))"

definition category_filtered :: "comparison list \<Rightarrow> string list \<Rightarrow> comparison list" where
  "category_filtered df cat_filter =
     (if cat_filter \<noteq> [] then filter (\<lambda>r. isin (category_c r) cat_filter) df else df)"

section \<open>Category aggregation\<close>

lemma set_pivot_columns:
  "set (pivot_columns df) = {c. \<exists>r \<in> set df. category r = Some c}"
  by (induction df) (auto simp: pivot_columns_def map_filter_simps split: option.splits)

lemma distinct_pivot_columns: "distinct (pivot_columns df)"
  by (simp add: pivot_columns_def)

lemma set_pivot_index:
  "set (pivot_index df) = {a. \<exists>r \<in> set df. nama_afiliasi_d r = a \<and> category r \<noteq> None}"
  by (auto simp: pivot_index_def)

lemma distinct_pivot_index: "distinct (pivot_index df)"
  by (simp add: pivot_index_def)

lemma filter_eq_distinct:
  "distinct xs \<Longrightarrow> filter (\<lambda>x. x = a) xs = (if a \<in> set xs then [a] else [])"
  by (induction xs) auto

lemma category_in_order: "category r = Some c \<Longrightarrow> c \<in> set CATEGORY_ORDER"
  unfolding category_def
  by (drule map_of_SomeD) (auto simp: CATEGORY_LABELS_def CATEGORY_ORDER_def)

lemma pivot_cell_cat_pivot:
  assumes "a \<in> set (pivot_index df)" and "c \<in> set (pivot_columns df)"
  shows "pivot_cell (cat_pivot df) a c = Some (group_total df a c)"
proof -
  have "map_of (snd (cat_pivot df)) a = Some (map (\<lambda>c. group_total df a c) (pivot_columns df))"
    using assms(1) by (simp add: cat_pivot_def map_of_map_restrict)
  then show ?thesis
    using assms(2) by (simp add: pivot_cell_def cat_pivot_def map_of_zip_map)
qed

lemma group_total_absent:
  "\<forall>r \<in> set df. \<not> (nama_afiliasi_d r = a \<and> category r = Some c) \<Longrightarrow> group_total df a c = 0"
  by (simp add: group_total_def filter_False)

text \<open>
  Claim C4, as the code has it. The pivot has one row for every affiliation that has
  at least one row of \<open>detail_kode\<close> whose raw category maps to a label, and no row for
  an affiliation whose raw categories all fail to map. It has one column for every
  label that occurs in the input, each a label of \<open>CATEGORY_ORDER\<close>, and no column for
  a label that no row has. A cell of that matrix holds the sum of the \<open>total\<close>s of its
  affiliation and category, which is 0 where no row has that combination.
\<close>

theorem C4_pivot_shape:
  "distinct (map fst (snd (cat_pivot df)))
   \<and> set (map fst (snd (cat_pivot df)))
       = {a. \<exists>r \<in> set df. nama_afiliasi_d r = a \<and> category r \<noteq> None}
   \<and> distinct (fst (cat_pivot df))
   \<and> set (fst (cat_pivot df)) = {c. \<exists>r \<in> set df. category r = Some c}
   \<and> set (fst (cat_pivot df)) \<subseteq> set CATEGORY_ORDER
   \<and> (\<forall>a \<in> set (map fst (snd (cat_pivot df))). \<forall>c \<in> set (fst (cat_pivot df)).
         pivot_cell (cat_pivot df) a c = Some (group_total df a c)
         \<and> ((\<forall>r \<in> set df. \<not> (nama_afiliasi_d r = a \<and> category r = Some c))
              \<longrightarrow> pivot_cell (cat_pivot df) a c = Some 0))"
proof -
  have idx: "map fst (snd (cat_pivot df)) = pivot_index df"
    by (simp add: cat_pivot_def comp_def)
  have cols: "fst (cat_pivot df) = pivot_columns df"
    by (simp add: cat_pivot_def)
  have sub: "set (pivot_columns df) \<subseteq> set CATEGORY_ORDER"
    by (auto simp: set_pivot_columns dest: category_in_order)
  have cells: "\<forall>a \<in> set (pivot_index df). \<forall>c \<in> set (pivot_columns df).
         pivot_cell (cat_pivot df) a c = Some (group_total df a c)
         \<and> ((\<forall>r \<in> set df. \<not> (nama_afiliasi_d r = a \<and> category r = Some c))
              \<longrightarrow> pivot_cell (cat_pivot df) a c = Some 0)"
    using pivot_cell_cat_pivot group_total_absent by metis
  show ?thesis
    unfolding idx cols
    using distinct_pivot_index distinct_pivot_columns set_pivot_index set_pivot_columns sub cells
    by blast
qed


theorem C4_pivot_shape_witness:
  "''A'' \<in> set (map fst (snd (cat_pivot
      [\<lparr>nama_afiliasi_d = ''A'', kode = ''K1'', kategori_score = ''Score in Research'',
        weight = 2, value_d = 1/2, total = 3\<rparr>,
       \<lparr>nama_afiliasi_d = ''B'', kode = ''K1'', kategori_score = ''Score in HKI'',
        weight = 2, value_d = 1/2, total = 1\<rparr>])))
   \<and> ''HKI'' \<in> set (fst (cat_pivot
      [\<lparr>nama_afiliasi_d = ''A'', kode = ''K1'', kategori_score = ''Score in Research'',
        weight = 2, value_d = 1/2, total = 3\<rparr>,
       \<lparr>nama_afiliasi_d = ''B'', kode = ''K1'', kategori_score = ''Score in HKI'',
        weight = 2, value_d = 1/2, total = 1\<rparr>]))
   \<and> pivot_cell (cat_pivot
      [\<lparr>nama_afiliasi_d = ''A'', kode = ''K1'', kategori_score = ''Score in Research'',
        weight = 2, value_d = 1/2, total = 3\<rparr>,
       \<lparr>nama_afiliasi_d = ''B'', kode = ''K1'', kategori_score = ''Score in HKI'',
        weight = 2, value_d = 1/2, total = 1\<rparr>]) ''A'' ''HKI'' = Some 0"
proof -
  let ?df = "[\<lparr>nama_afiliasi_d = ''A'', kode = ''K1'', kategori_score = ''Score in Research'',
        weight = 2, value_d = 1/2, total = 3\<rparr>,
       \<lparr>nama_afiliasi_d = ''B'', kode = ''K1'', kategori_score = ''Score in HKI'',
        weight = 2, value_d = 1/2, total = 1\<rparr>]"
  have a: "''A'' \<in> set (map fst (snd (cat_pivot ?df)))"
    by code_simp
  have c: "''HKI'' \<in> set (fst (cat_pivot ?df))"
    by code_simp
  have n: "\<forall>r \<in> set ?df. \<not> (nama_afiliasi_d r = ''A'' \<and> category r = Some ''HKI'')"
    by (simp add: category_def CATEGORY_LABELS_def)
  from C4_pivot_shape [of ?df] a c n
  have "pivot_cell (cat_pivot ?df) ''A'' ''HKI'' = Some 0"
    by blast
  with a c show ?thesis by blast
qed

text \<open>
  Claim C4 as stated fails: with one mapped row of affiliation A in Research and one
  row of affiliation C whose raw category is not a key of \<open>CATEGORY_LABELS\<close>, the pivot
  has the single column Research and the single row A. Affiliation C has no row, the
  other five categories have no column, and reading (A, HKI) finds no cell.
\<close>

theorem C4_dense_matrix_counterexample:
  "cat_pivot
      [\<lparr>nama_afiliasi_d = ''A'', kode = ''K1'', kategori_score = ''Score in Research'',
        weight = 2, value_d = 1/2, total = 3\<rparr>,
       \<lparr>nama_afiliasi_d = ''C'', kode = ''K1'', kategori_score = ''Other'',
        weight = 2, value_d = 1/2, total = 1\<rparr>]
     = ([''Research''], [(''A'', [3])])
   \<and> pivot_cell (cat_pivot
      [\<lparr>nama_afiliasi_d = ''A'', kode = ''K1'', kategori_score = ''Score in Research'',
        weight = 2, value_d = 1/2, total = 3\<rparr>,
       \<lparr>nama_afiliasi_d = ''C'', kode = ''K1'', kategori_score = ''Other'',
        weight = 2, value_d = 1/2, total = 1\<rparr>]) ''A'' ''HKI'' = None"
  by code_simp

section \<open>Sorting\<close>

lemma sorted_descending_keeping_ties: "sorted_descending key df (sort_keeping_ties key df)"
proof -
  have "sorted (map (\<lambda>r. - key r) (sort_key (\<lambda>r. - key r) df))"
    by (rule sorted_sort_key)
  then have "sorted_wrt (\<lambda>a b. key b \<le> key a) (sort_key (\<lambda>r. - key r) df)"
    by (simp add: sorted_map)
  then show ?thesis
    by (simp add: sorted_descending_def sort_keeping_ties_def)
qed

lemma sorted_descending_length: "sorted_descending key df out \<Longrightarrow> length out = length df"
  by (auto simp: sorted_descending_def dest: mset_eq_length)

lemma sorted_descending_set: "sorted_descending key df out \<Longrightarrow> set out = set df"
  by (auto simp: sorted_descending_def dest: mset_eq_setD)



section \<open>Ranking and gap to the top 10\<close>


lemma ranked_nth:
  "i < length s \<Longrightarrow> zip s (map (\<lambda>i. i + 1) [0 ..< length s]) ! i = (s ! i, i + 1)"
  by simp


















section \<open>High-leverage metrics\<close>







section \<open>Simulation\<close>

lemma filter_filter_eq_distinct:
  "distinct xs \<Longrightarrow> c \<in> set xs \<Longrightarrow> Q c \<Longrightarrow> filter (\<lambda>x. x = c) (filter Q xs) = [c]"
  by (induction xs) (auto simp: filter_empty_conv)

lemma distinct_CATEGORY_ORDER: "distinct CATEGORY_ORDER"
  by (simp add: CATEGORY_ORDER_def)

lemma set_map_filter_category:
  "set (List.map_filter category df) = {c. \<exists>r \<in> set df. category r = Some c}"
  by (induction df) (auto simp: map_filter_simps split: option.splits)

lemma category_s_sim_row [simp]: "category_s (sim_row df sel delta c) = c"
  by (simp add: sim_row_def Let_def)

lemma simulate_table:
  assumes "selected_affiliation \<in> set (pivot_index df_detail)"
    and "sim_categories \<noteq> []"
    and "\<not> lossy_setitem df_detail
            (filter (\<lambda>r. nama_afiliasi_d r = selected_affiliation) df_detail)
            sim_categories delta_value"
  shows "simulate df_detail selected_affiliation sim_categories delta_value
     = Inr (map (sim_row (filter (\<lambda>r. nama_afiliasi_d r = selected_affiliation) df_detail)
                       sim_categories delta_value)
                 (filter (\<lambda>c. \<exists>r \<in> set (filter (\<lambda>r. nama_afiliasi_d r = selected_affiliation) df_detail).
                              category r = Some c) CATEGORY_ORDER))"
  using assms
  by (auto simp: simulate_def Let_def set_map_filter_category cong: filter_cong)

lemma simulate_returns_iff:
  "(\<exists>rows. simulate df_detail selected_affiliation sim_categories delta_value = Inr rows)
     \<longleftrightarrow> selected_affiliation \<in> set (pivot_index df_detail) \<and> sim_categories \<noteq> []
         \<and> \<not> lossy_setitem df_detail
              (filter (\<lambda>r. nama_afiliasi_d r = selected_affiliation) df_detail)
              sim_categories delta_value"
  by (auto simp: simulate_def Let_def)

lemma category_sum_unselected:
  assumes "c \<notin> set sim_categories"
  shows "category_sum (total_sim sim_categories delta_value) df c
     = sum_list (map (\<lambda>r. weight r * value_d r) (filter (\<lambda>r. category r = Some c) df))"
proof -
  have "map (total_sim sim_categories delta_value) (filter (\<lambda>r. category r = Some c) df)
      = map (\<lambda>r. weight r * value_d r) (filter (\<lambda>r. category r = Some c) df)"
    by (rule map_cong) (use assms in \<open>auto simp: total_sim_def value_sim_def mask_def isin_def\<close>)
  then show ?thesis by (simp only: category_sum_def)
qed




text \<open>
  Claim C2, as the code has it. In a simulation run that returns a table, a category
  that occurs among the affiliation's rows and is not selected has exactly one row in
  it. That row holds the sum of \<open>total\<close> over the rows of the category as
  \<open>original_total\<close> and the sum of \<open>weight * value\<close> over them as \<open>simulated_total\<close>,
  so \<open>simulated_total = original_total\<close> and \<open>change = 0\<close> when each of these rows
  carries \<open>total = weight * value\<close>. A run has a non-empty selection: with an empty
  one the code shows a warning and computes no result.
\<close>

theorem C2_untouched_category:
  assumes aff: "df_aff_detail = filter (\<lambda>r. nama_afiliasi_d r = selected_affiliation) df_detail"
    and pivot: "selected_affiliation \<in> set (pivot_index df_detail)"
    and selection: "sim_categories \<noteq> []"
    and accepted: "\<not> lossy_setitem df_detail df_aff_detail sim_categories delta_value"
    and unselected: "c \<notin> set sim_categories"
    and occurs: "\<exists>r \<in> set df_aff_detail. category r = Some c"
  shows "\<exists>rows. simulate df_detail selected_affiliation sim_categories delta_value = Inr rows
    \<and> length (filter (\<lambda>row. category_s row = c) rows) = 1
    \<and> (\<forall>row \<in> set rows. category_s row = c \<longrightarrow>
          original_total row
            = sum_list (map total (filter (\<lambda>r. category r = Some c) df_aff_detail))
          \<and> simulated_total row
            = sum_list (map (\<lambda>r. weight r * value_d r) (filter (\<lambda>r. category r = Some c) df_aff_detail))
          \<and> change row = simulated_total row - original_total row
          \<and> ((\<forall>r \<in> set df_aff_detail. category r = Some c \<longrightarrow> total r = weight r * value_d r)
               \<longrightarrow> simulated_total row = original_total row \<and> change row = 0))
    \<and> simulate df_detail selected_affiliation [] delta_value = Inl (Inl Warning_no_category)"
proof -
  let ?rows = "map (sim_row df_aff_detail sim_categories delta_value)
      (filter (\<lambda>c. \<exists>r \<in> set df_aff_detail. category r = Some c) CATEGORY_ORDER)"
  have run: "simulate df_detail selected_affiliation sim_categories delta_value = Inr ?rows"
    unfolding aff using pivot selection accepted [unfolded aff] by (rule simulate_table)
  have c_in: "c \<in> set CATEGORY_ORDER"
    using occurs category_in_order by blast
  have "filter (\<lambda>row. category_s row = c) ?rows
      = map (sim_row df_aff_detail sim_categories delta_value)
          (filter (\<lambda>x. x = c)
            (filter (\<lambda>c. \<exists>r \<in> set df_aff_detail. category r = Some c) CATEGORY_ORDER))"
    by (simp add: filter_map comp_def)
  also have "filter (\<lambda>x. x = c)
            (filter (\<lambda>c. \<exists>r \<in> set df_aff_detail. category r = Some c) CATEGORY_ORDER) = [c]"
    using distinct_CATEGORY_ORDER c_in occurs by (rule filter_filter_eq_distinct)
  finally have once: "length (filter (\<lambda>row. category_s row = c) ?rows) = 1"
    by simp
  have sim: "category_sum (total_sim sim_categories delta_value) df_aff_detail c
      = sum_list (map (\<lambda>r. weight r * value_d r) (filter (\<lambda>r. category r = Some c) df_aff_detail))"
    using unselected by (rule category_sum_unselected)
  have same: "sum_list (map (\<lambda>r. weight r * value_d r) (filter (\<lambda>r. category r = Some c) df_aff_detail))
      = sum_list (map total (filter (\<lambda>r. category r = Some c) df_aff_detail))"
    if "\<forall>r \<in> set df_aff_detail. category r = Some c \<longrightarrow> total r = weight r * value_d r"
  proof -
    have "map (\<lambda>r. weight r * value_d r) (filter (\<lambda>r. category r = Some c) df_aff_detail)
        = map total (filter (\<lambda>r. category r = Some c) df_aff_detail)"
      by (rule map_cong) (use that in auto)
    then show ?thesis by (simp only:)
  qed
  have row_c: "\<forall>row \<in> set ?rows. category_s row = c \<longrightarrow>
      row = sim_row df_aff_detail sim_categories delta_value c"
    by auto
  let ?orig = "sum_list (map total (filter (\<lambda>r. category r = Some c) df_aff_detail))"
  let ?sim = "sum_list (map (\<lambda>r. weight r * value_d r) (filter (\<lambda>r. category r = Some c) df_aff_detail))"
  have fields: "original_total (sim_row df_aff_detail sim_categories delta_value c) = ?orig"
    "simulated_total (sim_row df_aff_detail sim_categories delta_value c) = ?sim"
    "change (sim_row df_aff_detail sim_categories delta_value c) = ?sim - ?orig"
    using sim by (simp_all add: sim_row_def Let_def category_sum_def)
  have each: "\<forall>row \<in> set ?rows. category_s row = c \<longrightarrow>
          original_total row = ?orig
          \<and> simulated_total row = ?sim
          \<and> change row = simulated_total row - original_total row
          \<and> ((\<forall>r \<in> set df_aff_detail. category r = Some c \<longrightarrow> total r = weight r * value_d r)
               \<longrightarrow> simulated_total row = original_total row \<and> change row = 0)"
  proof (intro ballI impI)
    fix row assume "row \<in> set ?rows" and "category_s row = c"
    then have row: "row = sim_row df_aff_detail sim_categories delta_value c"
      using row_c by blast
    show "original_total row = ?orig
          \<and> simulated_total row = ?sim
          \<and> change row = simulated_total row - original_total row
          \<and> ((\<forall>r \<in> set df_aff_detail. category r = Some c \<longrightarrow> total r = weight r * value_d r)
               \<longrightarrow> simulated_total row = original_total row \<and> change row = 0)"
      unfolding row fields using same by simp
  qed
  have guard: "simulate df_detail selected_affiliation [] delta_value = Inl (Inl Warning_no_category)"
    using pivot by (simp add: simulate_def)
  show ?thesis
    by (rule exI [of _ ?rows]) (intro conjI run once each guard)
qed

theorem C2_untouched_category_witness:
  "simulate
    [\<lparr>nama_afiliasi_d = ''A'', kode = ''K1'', kategori_score = ''Score in Publication'',
       weight = 2, value_d = 19 / 20, total = 19 / 10\<rparr>,
     \<lparr>nama_afiliasi_d = ''A'', kode = ''K2'', kategori_score = ''Score in HKI'',
       weight = 1, value_d = 1 / 5, total = 1 / 5\<rparr>,
     \<lparr>nama_afiliasi_d = ''B'', kode = ''K1'', kategori_score = ''Score in SDM'',
       weight = 5, value_d = 0, total = 0\<rparr>,
     \<lparr>nama_afiliasi_d = ''A'', kode = ''K3'', kategori_score = ''Score in Research'',
       weight = 3, value_d = 1 / 2, total = 3 / 2\<rparr>] ''A'' [''Publication'', ''HKI''] (1 / 10)
    = Inr
    [\<lparr>category_s = ''Publication'', original_total = 19 / 10, simulated_total = 2,
       change = 1 / 10, change_percent = Some (100 / 19)\<rparr>,
     \<lparr>category_s = ''Research'', original_total = 3 / 2, simulated_total = 3 / 2,
       change = 0, change_percent = Some 0\<rparr>,
     \<lparr>category_s = ''HKI'', original_total = 1 / 5, simulated_total = 3 / 10,
       change = 1 / 10, change_percent = Some 50\<rparr>]
   \<and> ''Research'' \<notin> set [''Publication'', ''HKI'']
   \<and> length (filter (\<lambda>row. category_s row = ''Research'')
    [\<lparr>category_s = ''Publication'', original_total = 19 / 10, simulated_total = 2,
       change = 1 / 10, change_percent = Some (100 / 19)\<rparr>,
     \<lparr>category_s = ''Research'', original_total = 3 / 2, simulated_total = 3 / 2,
       change = 0, change_percent = Some 0\<rparr>,
     \<lparr>category_s = ''HKI'', original_total = 1 / 5, simulated_total = 3 / 10,
       change = 1 / 10, change_percent = Some 50\<rparr>]) = 1
   \<and> simulate
    [\<lparr>nama_afiliasi_d = ''A'', kode = ''K1'', kategori_score = ''Score in Publication'',
       weight = 2, value_d = 19 / 20, total = 19 / 10\<rparr>,
     \<lparr>nama_afiliasi_d = ''A'', kode = ''K2'', kategori_score = ''Score in HKI'',
       weight = 1, value_d = 1 / 5, total = 1 / 5\<rparr>,
     \<lparr>nama_afiliasi_d = ''B'', kode = ''K1'', kategori_score = ''Score in SDM'',
       weight = 5, value_d = 0, total = 0\<rparr>,
     \<lparr>nama_afiliasi_d = ''A'', kode = ''K3'', kategori_score = ''Score in Research'',
       weight = 3, value_d = 1 / 2, total = 3 / 2\<rparr>] ''A'' [] (1 / 10)
    = Inl (Inl Warning_no_category)"
proof -
  let ?df = "[\<lparr>nama_afiliasi_d = ''A'', kode = ''K1'', kategori_score = ''Score in Publication'',
       weight = 2, value_d = 19 / 20, total = 19 / 10\<rparr>,
     \<lparr>nama_afiliasi_d = ''A'', kode = ''K2'', kategori_score = ''Score in HKI'',
       weight = 1, value_d = 1 / 5, total = 1 / 5\<rparr>,
     \<lparr>nama_afiliasi_d = ''B'', kode = ''K1'', kategori_score = ''Score in SDM'',
       weight = 5, value_d = 0, total = 0\<rparr>,
     \<lparr>nama_afiliasi_d = ''A'', kode = ''K3'', kategori_score = ''Score in Research'',
       weight = 3, value_d = 1 / 2, total = 3 / 2\<rparr>]"
  let ?rows = "[\<lparr>category_s = ''Publication'', original_total = 19 / 10, simulated_total = 2,
       change = 1 / 10, change_percent = Some (100 / 19)\<rparr>,
     \<lparr>category_s = ''Research'', original_total = 3 / 2, simulated_total = 3 / 2,
       change = 0, change_percent = Some 0\<rparr>,
     \<lparr>category_s = ''HKI'', original_total = 1 / 5, simulated_total = 3 / 10,
       change = 1 / 10, change_percent = Some 50\<rparr>]"
  have run: "simulate ?df ''A'' [''Publication'', ''HKI''] (1 / 10) = Inr ?rows"
    by code_simp
  have pivot: "''A'' \<in> set (pivot_index ?df)"
    by code_simp
  have selection: "[''Publication'', ''HKI''] \<noteq> []"
    by simp
  have accepted: "\<not> lossy_setitem ?df (filter (\<lambda>r. nama_afiliasi_d r = ''A'') ?df)
      [''Publication'', ''HKI''] (1 / 10)"
    by code_simp
  have unselected: "''Research'' \<notin> set [''Publication'', ''HKI'']"
    by simp
  have occurs: "\<exists>r \<in> set (filter (\<lambda>r. nama_afiliasi_d r = ''A'') ?df). category r = Some ''Research''"
    by (simp add: category_def CATEGORY_LABELS_def)
  obtain rows where r: "simulate ?df ''A'' [''Publication'', ''HKI''] (1 / 10) = Inr rows"
    and once: "length (filter (\<lambda>row. category_s row = ''Research'') rows) = 1"
    and guard: "simulate ?df ''A'' [] (1 / 10) = Inl (Inl Warning_no_category)"
    using C2_untouched_category [OF refl pivot selection accepted unselected occurs]
    by blast
  have "rows = ?rows" using r run by simp
  with once guard run unselected show ?thesis by blast
qed

text \<open>
  Claim C2 as stated fails: \<open>original_total\<close> sums the sheet's \<open>total\<close> column while
  \<open>simulated_total\<close> sums \<open>weight * value_sim\<close>. A Research row with weight 2, value
  1/2 and total 3, simulated with only Publication selected, gives original 3 and
  simulated 1, a change of -2 in a category that the selection does not touch. And
  with an empty selection there is no result at all, only the warning.
\<close>

theorem C2_zero_change_counterexample:
  "simulate
    [\<lparr>nama_afiliasi_d = ''A'', kode = ''K1'', kategori_score = ''Score in Research'',
       weight = 2, value_d = 1 / 2, total = 3\<rparr>] ''A'' [''Publication''] (1 / 10)
    = Inr [\<lparr>category_s = ''Research'', original_total = 3, simulated_total = 1,
             change = - 2, change_percent = Some (- (200 / 3))\<rparr>]
   \<and> simulate
    [\<lparr>nama_afiliasi_d = ''A'', kode = ''K1'', kategori_score = ''Score in Research'',
       weight = 2, value_d = 1 / 2, total = 3\<rparr>] ''A'' [] (1 / 10)
    = Inl (Inl Warning_no_category)"
  by code_simp

section \<open>Comparator\<close>

lemma set_side_rows:
  "set (side_rows df k) =
     (if k \<in> code ` set df then Some ` {r \<in> set df. code r = k} else {None})"
  by (auto simp: side_rows_def Let_def filter_empty_conv)

lemma set_merge_key:
  "set (merge_key base compb k) =
     {(k, l, r) | l r. l \<in> set (side_rows base k) \<and> r \<in> set (side_rows compb k)}"
  by (auto simp: merge_key_def)

lemma side_rows_nonempty: "side_rows df k \<noteq> []"
  by (simp add: side_rows_def Let_def)

lemma fst_set_merge_key: "fst ` set (merge_key base compb k) = {k}"
proof -
  obtain l where "l \<in> set (side_rows base k)"
    using side_rows_nonempty [of base k] by (cases "side_rows base k") auto
  moreover obtain r where "r \<in> set (side_rows compb k)"
    using side_rows_nonempty [of compb k] by (cases "side_rows compb k") auto
  ultimately have "(k, l, r) \<in> set (merge_key base compb k)"
    unfolding set_merge_key by blast
  then have "k \<in> fst ` set (merge_key base compb k)" by force
  moreover have "fst ` set (merge_key base compb k) \<subseteq> {k}"
    unfolding set_merge_key by auto
  ultimately show ?thesis by blast
qed

lemma set_merge_outer:
  "set (merge_outer base compb) =
     {(k, l, r) | k l r. k \<in> code ` set base \<union> code ` set compb
        \<and> l \<in> set (side_rows base k) \<and> r \<in> set (side_rows compb k)}"
  unfolding merge_outer_def by (auto simp: set_merge_key)

lemma merge_outer_left:
  assumes "(k, l, r) \<in> set (merge_outer base compb)"
  shows "case l of None \<Rightarrow> k \<notin> code ` set base | Some a \<Rightarrow> a \<in> set base \<and> code a = k"
  using assms unfolding set_merge_outer set_side_rows
  by (auto split: if_splits option.splits)

lemma merge_outer_right:
  assumes "(k, l, r) \<in> set (merge_outer base compb)"
  shows "case r of None \<Rightarrow> k \<notin> code ` set compb | Some b \<Rightarrow> b \<in> set compb \<and> code b = k"
  using assms unfolding set_merge_outer set_side_rows
  by (auto split: if_splits option.splits)

lemma map_fst_merge_key:
  "map fst (merge_key base compb k)
     = replicate (length (side_rows base k) * length (side_rows compb k)) k"
proof -
  have inner: "map fst (map (\<lambda>r. (k, l, r)) rs) = replicate (length rs) k" for l and rs :: "metrics_detail option list"
    by (simp add: comp_def map_replicate_const)
  have "map fst (concat (map (\<lambda>l. map (\<lambda>r. (k, l, r)) rs) ls))
      = replicate (length ls * length rs) k" for ls rs :: "metrics_detail option list"
    by (induction ls) (simp_all add: comp_def map_replicate_const replicate_add)
  then show ?thesis by (simp add: merge_key_def)
qed

lemma side_rows_distinct:
  assumes "distinct (map code df)"
  shows "length (side_rows df k) = 1"
proof -
  have "length (filter (\<lambda>r. code r = k) df) \<le> 1"
    using assms by (induction df) (auto simp: filter_empty_conv image_iff)
  then show ?thesis
    by (cases "filter (\<lambda>r. code r = k) df") (auto simp: side_rows_def Let_def)
qed

lemma merge_outer_codes:
  "set (map fst (merge_outer base compb)) = code ` set base \<union> code ` set compb"
proof -
  have "fst ` set (merge_outer base compb)
      = (\<Union>k \<in> code ` set base \<union> code ` set compb. fst ` set (merge_key base compb k))"
    unfolding merge_outer_def by auto
  then show ?thesis
    by (simp add: fst_set_merge_key)
qed

lemma merge_outer_codes_distinct:
  assumes "distinct (map code base)" and "distinct (map code compb)"
  shows "distinct (map fst (merge_outer base compb))"
proof -
  have one: "map fst (merge_key base compb k) = [k]" for k
    by (simp add: map_fst_merge_key side_rows_distinct [OF assms(1)] side_rows_distinct [OF assms(2)])
  have "map fst (merge_outer base compb) = sort (remdups (map code base @ map code compb))"
    unfolding merge_outer_def
    by (induction "sort (remdups (map code base @ map code compb))") (simp_all add: map_concat comp_def one)
  then show ?thesis by simp
qed

lemma compare_row_fields:
  "code_c (compare_row metric_col name_map (k, l, r)) = k"
  "score_selected (compare_row metric_col name_map (k, l, r)) = fillna0 (Option.bind l metric_col)"
  "score_compare (compare_row metric_col name_map (k, l, r)) = fillna0 (Option.bind r metric_col)"
  "diff_abs (compare_row metric_col name_map (k, l, r))
     = fillna0 (Option.bind l metric_col) - fillna0 (Option.bind r metric_col)"
  "diff_pct (compare_row metric_col name_map (k, l, r))
     = (if fillna0 (Option.bind r metric_col) \<noteq> 0
        then Some ((fillna0 (Option.bind l metric_col) - fillna0 (Option.bind r metric_col))
                    / fillna0 (Option.bind r metric_col) * 100)
        else None)"
  by (simp_all add: compare_row_def Let_def)

lemma compare_universities_df_rows:
  assumes "compare_universities_df df_md aff1 aff2 metric_col = Inr rows"
  shows "\<exists>name_map. rows = map (compare_row metric_col name_map)
           (merge_outer (filter (\<lambda>r. affiliation_name r = aff1) df_md)
                        (filter (\<lambda>r. affiliation_name r = aff2) df_md))"
  using assms by (auto simp: compare_universities_df_def Let_def split: if_splits)

lemma compare_row_diff:
  "diff_abs (compare_row metric_col name_map m)
     = score_selected (compare_row metric_col name_map m)
       - score_compare (compare_row metric_col name_map m)"
  by (cases m) (simp add: compare_row_def Let_def)

lemma concat_map_single_key:
  "distinct ks \<Longrightarrow> concat (map (\<lambda>k'. if k' = k then xs else []) ks) = (if k \<in> set ks then xs else [])"
  by (induction ks) auto

lemma filter_merge_key:
  "filter (\<lambda>m. fst m = k) (merge_key base compb k') = (if k' = k then merge_key base compb k else [])"
proof -
  have all: "\<forall>m \<in> set (merge_key base compb k'). fst m = k'"
    by (auto simp: set_merge_key)
  show ?thesis
  proof (cases "k' = k")
    case True
    then show ?thesis using all by (simp add: filter_id_conv)
  next
    case False
    then show ?thesis using all by (auto simp: filter_empty_conv)
  qed
qed

lemma filter_merge_outer:
  "filter (\<lambda>m. fst m = k) (merge_outer base compb)
     = (if k \<in> code ` set base \<union> code ` set compb then merge_key base compb k else [])"
proof -
  let ?ks = "sort (remdups (map code base @ map code compb))"
  have "filter (\<lambda>m. fst m = k) (merge_outer base compb)
      = concat (map (\<lambda>k'. filter (\<lambda>m. fst m = k) (merge_key base compb k')) ?ks)"
    unfolding merge_outer_def by (simp add: filter_concat comp_def)
  also have "\<dots> = concat (map (\<lambda>k'. if k' = k then merge_key base compb k else []) ?ks)"
    by (simp only: filter_merge_key)
  also have "\<dots> = (if k \<in> set ?ks then merge_key base compb k else [])"
    by (rule concat_map_single_key) simp
  finally show ?thesis by simp
qed

lemma side_rows_present:
  "k \<in> code ` set df \<Longrightarrow> side_rows df k = map Some (filter (\<lambda>r. code r = k) df)"
  by (auto simp: side_rows_def Let_def filter_empty_conv)

lemma side_rows_absent: "k \<notin> code ` set df \<Longrightarrow> side_rows df k = [None]"
  by (auto simp: side_rows_def Let_def filter_empty_conv)

lemma merge_key_unique_right:
  assumes "distinct (map code compb)"
  shows "\<exists>r. merge_key base compb k = map (\<lambda>l. (k, l, r)) (side_rows base k)"
proof -
  have "length (side_rows compb k) = 1"
    using assms by (rule side_rows_distinct)
  then obtain r where "side_rows compb k = [r]"
    by (cases "side_rows compb k") auto
  then have "merge_key base compb k = map (\<lambda>l. (k, l, r)) (side_rows base k)"
    by (induction "side_rows base k") (simp_all add: merge_key_def)
  then show ?thesis by blast
qed

lemma rows_of_code:
  assumes "distinct (map code compb)"
  shows "map score_selected (filter (\<lambda>row. code_c row = k)
            (map (compare_row metric_col name_map) (merge_outer base compb)))
     = (if k \<in> code ` set base
        then map (\<lambda>a. fillna0 (metric_col a)) (filter (\<lambda>a. code a = k) base)
        else if k \<in> code ` set compb then [0] else [])"
proof -
  obtain r where mk: "merge_key base compb k = map (\<lambda>l. (k, l, r)) (side_rows base k)"
    using merge_key_unique_right [OF assms] by blast
  have "filter (\<lambda>row. code_c row = k) (map (compare_row metric_col name_map) (merge_outer base compb))
      = map (compare_row metric_col name_map) (filter (\<lambda>m. fst m = k) (merge_outer base compb))"
    by (simp add: filter_map comp_def compare_row_def Let_def split_def)
  then have eq: "map score_selected (filter (\<lambda>row. code_c row = k)
            (map (compare_row metric_col name_map) (merge_outer base compb)))
      = map (\<lambda>m. fillna0 (Option.bind (fst (snd m)) metric_col))
          (filter (\<lambda>m. fst m = k) (merge_outer base compb))"
    by (simp add: comp_def compare_row_def Let_def split_def)
  show ?thesis
  proof (cases "k \<in> code ` set base")
    case True
    then show ?thesis
      unfolding eq filter_merge_outer mk
      by (simp add: side_rows_present comp_def)
  next
    case False
    then show ?thesis
      unfolding eq filter_merge_outer mk
      by (simp add: side_rows_absent fillna0_def)
  qed
qed

text \<open>
  Claim C5, as the code has it. When the compare-side affiliation B has no two rows
  with the same code, \<open>compare_universities_df\<close> returns a frame whose codes are
  exactly the codes of A's rows and of B's rows. A code that A has appears once for
  each row of A with that code, in the order of these rows and with their scores; a
  code that only B has appears once, with \<open>score_selected = 0\<close>. So every code
  appears exactly once when A has no two rows with the same code either. In every
  row, a score whose side has no row for the code is 0 and otherwise is the score of
  a row of that side with that code (an empty cell counting as 0),
  \<open>diff_abs = score_selected - score_compare\<close>, and \<open>diff_pct\<close> is NaN exactly when
  \<open>score_compare = 0\<close> and \<open>diff_abs / score_compare * 100\<close> otherwise.
\<close>

theorem C5_outer_join:
  assumes df1: "df1 = filter (\<lambda>r. affiliation_name r = aff1) df_md"
    and df2: "df2 = filter (\<lambda>r. affiliation_name r = aff2) df_md"
    and unique_b: "distinct (map code df2)"
  shows "\<exists>rows. compare_universities_df df_md aff1 aff2 metric_col = Inr rows
    \<and> set (map code_c rows) = code ` set df1 \<union> code ` set df2
    \<and> (distinct (map code df1) \<longrightarrow> distinct (map code_c rows))
    \<and> (\<forall>k. map score_selected (filter (\<lambda>row. code_c row = k) rows)
            = (if k \<in> code ` set df1
               then map (\<lambda>a. fillna0 (metric_col a)) (filter (\<lambda>a. code a = k) df1)
               else if k \<in> code ` set df2 then [0] else []))
    \<and> (\<forall>k. length (filter (\<lambda>row. code_c row = k) rows)
            = (if k \<in> code ` set df1 then length (filter (\<lambda>a. code a = k) df1)
               else if k \<in> code ` set df2 then 1 else 0))
    \<and> (\<forall>row \<in> set rows.
          (code_c row \<in> code ` set df1 \<longrightarrow>
             (\<exists>a \<in> set df1. code a = code_c row \<and> score_selected row = fillna0 (metric_col a)))
          \<and> (code_c row \<notin> code ` set df1 \<longrightarrow> score_selected row = 0)
          \<and> (code_c row \<in> code ` set df2 \<longrightarrow>
             (\<exists>b \<in> set df2. code b = code_c row \<and> score_compare row = fillna0 (metric_col b)))
          \<and> (code_c row \<notin> code ` set df2 \<longrightarrow> score_compare row = 0)
          \<and> diff_abs row = score_selected row - score_compare row
          \<and> (diff_pct row = None \<longleftrightarrow> score_compare row = 0)
          \<and> (score_compare row \<noteq> 0 \<longrightarrow>
                diff_pct row = Some (diff_abs row / score_compare row * 100)))"
proof -
  let ?name_map = "map_of (map (\<lambda>r. (code r, name r)) df2)"
  let ?rows = "map (compare_row metric_col ?name_map) (merge_outer df1 df2)"
  have run: "compare_universities_df df_md aff1 aff2 metric_col = Inr ?rows"
    using unique_b by (simp add: compare_universities_df_def Let_def df1 df2)
  have codes: "map code_c ?rows = map fst (merge_outer df1 df2)"
    by (auto simp: compare_row_fields)
  have union: "set (map code_c ?rows) = code ` set df1 \<union> code ` set df2"
    unfolding codes by (rule merge_outer_codes)
  have once: "distinct (map code df1) \<longrightarrow> distinct (map code_c ?rows)"
    unfolding codes using unique_b by (simp add: merge_outer_codes_distinct)
  have each: "\<forall>row \<in> set ?rows.
          (code_c row \<in> code ` set df1 \<longrightarrow>
             (\<exists>a \<in> set df1. code a = code_c row \<and> score_selected row = fillna0 (metric_col a)))
          \<and> (code_c row \<notin> code ` set df1 \<longrightarrow> score_selected row = 0)
          \<and> (code_c row \<in> code ` set df2 \<longrightarrow>
             (\<exists>b \<in> set df2. code b = code_c row \<and> score_compare row = fillna0 (metric_col b)))
          \<and> (code_c row \<notin> code ` set df2 \<longrightarrow> score_compare row = 0)
          \<and> diff_abs row = score_selected row - score_compare row
          \<and> (diff_pct row = None \<longleftrightarrow> score_compare row = 0)
          \<and> (score_compare row \<noteq> 0 \<longrightarrow>
                diff_pct row = Some (diff_abs row / score_compare row * 100))"
  proof
    fix row assume "row \<in> set ?rows"
    then obtain k l r where m: "(k, l, r) \<in> set (merge_outer df1 df2)"
      and row: "row = compare_row metric_col ?name_map (k, l, r)"
      by auto
    note left = merge_outer_left [OF m] and right = merge_outer_right [OF m]
    have sel_in: "code_c row \<in> code ` set df1 \<longrightarrow>
             (\<exists>a \<in> set df1. code a = code_c row \<and> score_selected row = fillna0 (metric_col a))"
      using left by (cases l) (auto simp: row compare_row_fields)
    have sel_out: "code_c row \<notin> code ` set df1 \<longrightarrow> score_selected row = 0"
      using left by (cases l) (auto simp: row compare_row_fields fillna0_def)
    have cmp_in: "code_c row \<in> code ` set df2 \<longrightarrow>
             (\<exists>b \<in> set df2. code b = code_c row \<and> score_compare row = fillna0 (metric_col b))"
      using right by (cases r) (auto simp: row compare_row_fields)
    have cmp_out: "code_c row \<notin> code ` set df2 \<longrightarrow> score_compare row = 0"
      using right by (cases r) (auto simp: row compare_row_fields fillna0_def)
    have diff: "diff_abs row = score_selected row - score_compare row"
      by (simp add: row compare_row_fields)
    have pct: "(diff_pct row = None \<longleftrightarrow> score_compare row = 0)
        \<and> (score_compare row \<noteq> 0 \<longrightarrow>
                diff_pct row = Some (diff_abs row / score_compare row * 100))"
      by (simp add: row compare_row_fields)
    show "(code_c row \<in> code ` set df1 \<longrightarrow>
             (\<exists>a \<in> set df1. code a = code_c row \<and> score_selected row = fillna0 (metric_col a)))
          \<and> (code_c row \<notin> code ` set df1 \<longrightarrow> score_selected row = 0)
          \<and> (code_c row \<in> code ` set df2 \<longrightarrow>
             (\<exists>b \<in> set df2. code b = code_c row \<and> score_compare row = fillna0 (metric_col b)))
          \<and> (code_c row \<notin> code ` set df2 \<longrightarrow> score_compare row = 0)
          \<and> diff_abs row = score_selected row - score_compare row
          \<and> (diff_pct row = None \<longleftrightarrow> score_compare row = 0)
          \<and> (score_compare row \<noteq> 0 \<longrightarrow>
                diff_pct row = Some (diff_abs row / score_compare row * 100))"
      using sel_in sel_out cmp_in cmp_out diff pct by blast
  qed
  have per_code: "\<forall>k. map score_selected (filter (\<lambda>row. code_c row = k) ?rows)
            = (if k \<in> code ` set df1
               then map (\<lambda>a. fillna0 (metric_col a)) (filter (\<lambda>a. code a = k) df1)
               else if k \<in> code ` set df2 then [0] else [])"
    using rows_of_code [OF unique_b] by blast
  have counts: "\<forall>k. length (filter (\<lambda>row. code_c row = k) ?rows)
            = (if k \<in> code ` set df1 then length (filter (\<lambda>a. code a = k) df1)
               else if k \<in> code ` set df2 then 1 else 0)"
  proof
    fix k
    have "length (filter (\<lambda>row. code_c row = k) ?rows)
        = length (map score_selected (filter (\<lambda>row. code_c row = k) ?rows))"
      by simp
    also have "\<dots> = length (if k \<in> code ` set df1
               then map (\<lambda>a. fillna0 (metric_col a)) (filter (\<lambda>a. code a = k) df1)
               else if k \<in> code ` set df2 then [0] else [])"
      using per_code by (simp only:)
    also have "\<dots> = (if k \<in> code ` set df1 then length (filter (\<lambda>a. code a = k) df1)
               else if k \<in> code ` set df2 then 1 else 0)"
      by simp
    finally show "length (filter (\<lambda>row. code_c row = k) ?rows)
            = (if k \<in> code ` set df1 then length (filter (\<lambda>a. code a = k) df1)
               else if k \<in> code ` set df2 then 1 else 0)" .
  qed
  show ?thesis
    by (rule exI [of _ ?rows]) (intro conjI run union once per_code counts each)
qed

theorem C5_outer_join_witness:
  "distinct (map code (filter (\<lambda>r. affiliation_name r = ''B'')
    [\<lparr>affiliation_name = ''A'', code = ''C1'', name = Some ''Articles'', area = Some ''Publikasi'',
       sinta_v3_overall_value = Some 1, sinta_v3_overall_total = Some 5, sinta_v3_3yr_total = Some 2\<rparr>,
     \<lparr>affiliation_name = ''A'', code = ''C2'', name = Some ''Grants'', area = Some ''Penelitian'',
       sinta_v3_overall_value = Some 1, sinta_v3_overall_total = Some 3, sinta_v3_3yr_total = Some 1\<rparr>,
     \<lparr>affiliation_name = ''B'', code = ''C2'', name = Some ''Grants'', area = Some ''Penelitian'',
       sinta_v3_overall_value = Some 2, sinta_v3_overall_total = Some 4, sinta_v3_3yr_total = Some 1\<rparr>,
     \<lparr>affiliation_name = ''B'', code = ''C3'', name = Some ''Patents'', area = Some ''HKI'',
       sinta_v3_overall_value = Some 0, sinta_v3_overall_total = None, sinta_v3_3yr_total = Some 0\<rparr>]))
   \<and> compare_universities_df
    [\<lparr>affiliation_name = ''A'', code = ''C1'', name = Some ''Articles'', area = Some ''Publikasi'',
       sinta_v3_overall_value = Some 1, sinta_v3_overall_total = Some 5, sinta_v3_3yr_total = Some 2\<rparr>,
     \<lparr>affiliation_name = ''A'', code = ''C2'', name = Some ''Grants'', area = Some ''Penelitian'',
       sinta_v3_overall_value = Some 1, sinta_v3_overall_total = Some 3, sinta_v3_3yr_total = Some 1\<rparr>,
     \<lparr>affiliation_name = ''B'', code = ''C2'', name = Some ''Grants'', area = Some ''Penelitian'',
       sinta_v3_overall_value = Some 2, sinta_v3_overall_total = Some 4, sinta_v3_3yr_total = Some 1\<rparr>,
     \<lparr>affiliation_name = ''B'', code = ''C3'', name = Some ''Patents'', area = Some ''HKI'',
       sinta_v3_overall_value = Some 0, sinta_v3_overall_total = None, sinta_v3_3yr_total = Some 0\<rparr>] ''A'' ''B'' sinta_v3_overall_total
    = Inr
    [\<lparr>code_c = ''C1'', name_c = Some ''Articles'', category_c = Some ''Publikasi'',
       score_selected = 5, score_compare = 0, diff_abs = 5, diff_pct = None\<rparr>,
     \<lparr>code_c = ''C2'', name_c = Some ''Grants'', category_c = Some ''Penelitian'',
       score_selected = 3, score_compare = 4, diff_abs = - 1, diff_pct = Some (- 25)\<rparr>,
     \<lparr>code_c = ''C3'', name_c = Some ''Patents'', category_c = Some ''HKI'',
       score_selected = 0, score_compare = 0, diff_abs = 0, diff_pct = None\<rparr>]
   \<and> set (map code_c
    [\<lparr>code_c = ''C1'', name_c = Some ''Articles'', category_c = Some ''Publikasi'',
       score_selected = 5, score_compare = 0, diff_abs = 5, diff_pct = None\<rparr>,
     \<lparr>code_c = ''C2'', name_c = Some ''Grants'', category_c = Some ''Penelitian'',
       score_selected = 3, score_compare = 4, diff_abs = - 1, diff_pct = Some (- 25)\<rparr>,
     \<lparr>code_c = ''C3'', name_c = Some ''Patents'', category_c = Some ''HKI'',
       score_selected = 0, score_compare = 0, diff_abs = 0, diff_pct = None\<rparr>]) = {''C1'', ''C2'', ''C3''}
   \<and> distinct (map code_c
    [\<lparr>code_c = ''C1'', name_c = Some ''Articles'', category_c = Some ''Publikasi'',
       score_selected = 5, score_compare = 0, diff_abs = 5, diff_pct = None\<rparr>,
     \<lparr>code_c = ''C2'', name_c = Some ''Grants'', category_c = Some ''Penelitian'',
       score_selected = 3, score_compare = 4, diff_abs = - 1, diff_pct = Some (- 25)\<rparr>,
     \<lparr>code_c = ''C3'', name_c = Some ''Patents'', category_c = Some ''HKI'',
       score_selected = 0, score_compare = 0, diff_abs = 0, diff_pct = None\<rparr>])"
proof -
  let ?df = "[\<lparr>affiliation_name = ''A'', code = ''C1'', name = Some ''Articles'', area = Some ''Publikasi'',
       sinta_v3_overall_value = Some 1, sinta_v3_overall_total = Some 5, sinta_v3_3yr_total = Some 2\<rparr>,
     \<lparr>affiliation_name = ''A'', code = ''C2'', name = Some ''Grants'', area = Some ''Penelitian'',
       sinta_v3_overall_value = Some 1, sinta_v3_overall_total = Some 3, sinta_v3_3yr_total = Some 1\<rparr>,
     \<lparr>affiliation_name = ''B'', code = ''C2'', name = Some ''Grants'', area = Some ''Penelitian'',
       sinta_v3_overall_value = Some 2, sinta_v3_overall_total = Some 4, sinta_v3_3yr_total = Some 1\<rparr>,
     \<lparr>affiliation_name = ''B'', code = ''C3'', name = Some ''Patents'', area = Some ''HKI'',
       sinta_v3_overall_value = Some 0, sinta_v3_overall_total = None, sinta_v3_3yr_total = Some 0\<rparr>]"
  let ?rows = "[\<lparr>code_c = ''C1'', name_c = Some ''Articles'', category_c = Some ''Publikasi'',
       score_selected = 5, score_compare = 0, diff_abs = 5, diff_pct = None\<rparr>,
     \<lparr>code_c = ''C2'', name_c = Some ''Grants'', category_c = Some ''Penelitian'',
       score_selected = 3, score_compare = 4, diff_abs = - 1, diff_pct = Some (- 25)\<rparr>,
     \<lparr>code_c = ''C3'', name_c = Some ''Patents'', category_c = Some ''HKI'',
       score_selected = 0, score_compare = 0, diff_abs = 0, diff_pct = None\<rparr>]"
  have unique_b: "distinct (map code (filter (\<lambda>r. affiliation_name r = ''B'') ?df))"
    by simp
  have unique_a: "distinct (map code (filter (\<lambda>r. affiliation_name r = ''A'') ?df))"
    by simp
  have run: "compare_universities_df ?df ''A'' ''B'' sinta_v3_overall_total = Inr ?rows"
    by code_simp
  obtain rows where r: "compare_universities_df ?df ''A'' ''B'' sinta_v3_overall_total = Inr rows"
    and u: "set (map code_c rows) = code ` set (filter (\<lambda>r. affiliation_name r = ''A'') ?df)
              \<union> code ` set (filter (\<lambda>r. affiliation_name r = ''B'') ?df)"
    and d: "distinct (map code_c rows)"
    using C5_outer_join [OF refl refl unique_b, of "''A''" sinta_v3_overall_total] unique_a
    by blast
  have "rows = ?rows" using r run by simp
  then have "set (map code_c ?rows) = {''C1'', ''C2'', ''C3''}" and "distinct (map code_c ?rows)"
    using u d by auto
  with unique_b run show ?thesis by blast
qed

text \<open>
  Claim C5 as stated fails for a record set with a repeated code: two rows of A with
  code C1 give two result rows with code C1, and with the roles swapped (the repeated
  code on the compare side) the function raises instead of returning.
\<close>

theorem C5_exactly_once_counterexample:
  "compare_universities_df
    [\<lparr>affiliation_name = ''A'', code = ''C1'', name = Some ''Articles'', area = Some ''Publikasi'',
       sinta_v3_overall_value = Some 1, sinta_v3_overall_total = Some 5, sinta_v3_3yr_total = Some 2\<rparr>,
     \<lparr>affiliation_name = ''A'', code = ''C1'', name = Some ''Articles'', area = Some ''Publikasi'',
       sinta_v3_overall_value = Some 1, sinta_v3_overall_total = Some 7, sinta_v3_3yr_total = Some 2\<rparr>] ''A'' ''B'' sinta_v3_overall_total
    = Inr
    [\<lparr>code_c = ''C1'', name_c = Some ''Articles'', category_c = Some ''Publikasi'',
       score_selected = 5, score_compare = 0, diff_abs = 5, diff_pct = None\<rparr>,
     \<lparr>code_c = ''C1'', name_c = Some ''Articles'', category_c = Some ''Publikasi'',
       score_selected = 7, score_compare = 0, diff_abs = 7, diff_pct = None\<rparr>]
   \<and> compare_universities_df
    [\<lparr>affiliation_name = ''A'', code = ''C1'', name = Some ''Articles'', area = Some ''Publikasi'',
       sinta_v3_overall_value = Some 1, sinta_v3_overall_total = Some 5, sinta_v3_3yr_total = Some 2\<rparr>,
     \<lparr>affiliation_name = ''A'', code = ''C1'', name = Some ''Articles'', area = Some ''Publikasi'',
       sinta_v3_overall_value = Some 1, sinta_v3_overall_total = Some 7, sinta_v3_3yr_total = Some 2\<rparr>] ''B'' ''A'' sinta_v3_overall_total = Inl InvalidIndexError"
  by code_simp

text \<open>
  Claim C10. \<open>compare_universities_df\<close> raises \<open>InvalidIndexError\<close> whenever the
  compare-side affiliation has two rows with the same code, whatever A's rows are, and
  it returns a frame whenever B's codes are pairwise different: uniqueness of B's codes
  is exactly the precondition of a normal return.
\<close>

theorem C10_duplicate_codes:
  assumes "df2 = filter (\<lambda>r. affiliation_name r = aff2) df_md"
  shows "(\<not> distinct (map code df2) \<longrightarrow>
            compare_universities_df df_md aff1 aff2 metric_col = Inl InvalidIndexError)
    \<and> (distinct (map code df2) \<longrightarrow>
            (\<exists>rows. compare_universities_df df_md aff1 aff2 metric_col = Inr rows))"
  using assms by (simp add: compare_universities_df_def Let_def)

theorem C10_duplicate_codes_witness:
  "\<not> distinct (map code (filter (\<lambda>r. affiliation_name r = ''B'')
    [\<lparr>affiliation_name = ''A'', code = ''C1'', name = Some ''Articles'', area = Some ''Publikasi'',
       sinta_v3_overall_value = Some 1, sinta_v3_overall_total = Some 5, sinta_v3_3yr_total = Some 2\<rparr>,
     \<lparr>affiliation_name = ''B'', code = ''C1'', name = Some ''Articles'', area = Some ''Publikasi'',
       sinta_v3_overall_value = Some 1, sinta_v3_overall_total = Some 4, sinta_v3_3yr_total = Some 2\<rparr>,
     \<lparr>affiliation_name = ''B'', code = ''C1'', name = Some ''Articles'', area = Some ''Publikasi'',
       sinta_v3_overall_value = Some 1, sinta_v3_overall_total = Some 6, sinta_v3_3yr_total = Some 2\<rparr>]))
   \<and> length (filter (\<lambda>r. affiliation_name r = ''A'')
    [\<lparr>affiliation_name = ''A'', code = ''C1'', name = Some ''Articles'', area = Some ''Publikasi'',
       sinta_v3_overall_value = Some 1, sinta_v3_overall_total = Some 5, sinta_v3_3yr_total = Some 2\<rparr>,
     \<lparr>affiliation_name = ''B'', code = ''C1'', name = Some ''Articles'', area = Some ''Publikasi'',
       sinta_v3_overall_value = Some 1, sinta_v3_overall_total = Some 4, sinta_v3_3yr_total = Some 2\<rparr>,
     \<lparr>affiliation_name = ''B'', code = ''C1'', name = Some ''Articles'', area = Some ''Publikasi'',
       sinta_v3_overall_value = Some 1, sinta_v3_overall_total = Some 6, sinta_v3_3yr_total = Some 2\<rparr>]) = 1
   \<and> compare_universities_df
    [\<lparr>affiliation_name = ''A'', code = ''C1'', name = Some ''Articles'', area = Some ''Publikasi'',
       sinta_v3_overall_value = Some 1, sinta_v3_overall_total = Some 5, sinta_v3_3yr_total = Some 2\<rparr>,
     \<lparr>affiliation_name = ''B'', code = ''C1'', name = Some ''Articles'', area = Some ''Publikasi'',
       sinta_v3_overall_value = Some 1, sinta_v3_overall_total = Some 4, sinta_v3_3yr_total = Some 2\<rparr>,
     \<lparr>affiliation_name = ''B'', code = ''C1'', name = Some ''Articles'', area = Some ''Publikasi'',
       sinta_v3_overall_value = Some 1, sinta_v3_overall_total = Some 6, sinta_v3_3yr_total = Some 2\<rparr>] ''A'' ''B'' sinta_v3_overall_total = Inl InvalidIndexError"
proof -
  let ?df = "[\<lparr>affiliation_name = ''A'', code = ''C1'', name = Some ''Articles'', area = Some ''Publikasi'',
       sinta_v3_overall_value = Some 1, sinta_v3_overall_total = Some 5, sinta_v3_3yr_total = Some 2\<rparr>,
     \<lparr>affiliation_name = ''B'', code = ''C1'', name = Some ''Articles'', area = Some ''Publikasi'',
       sinta_v3_overall_value = Some 1, sinta_v3_overall_total = Some 4, sinta_v3_3yr_total = Some 2\<rparr>,
     \<lparr>affiliation_name = ''B'', code = ''C1'', name = Some ''Articles'', area = Some ''Publikasi'',
       sinta_v3_overall_value = Some 1, sinta_v3_overall_total = Some 6, sinta_v3_3yr_total = Some 2\<rparr>]"
  have dup: "\<not> distinct (map code (filter (\<lambda>r. affiliation_name r = ''B'') ?df))"
    by simp
  have a: "length (filter (\<lambda>r. affiliation_name r = ''A'') ?df) = 1"
    by simp
  have "compare_universities_df ?df ''A'' ''B'' sinta_v3_overall_total = Inl InvalidIndexError"
    using C10_duplicate_codes [OF refl, of "''B''" ?df "''A''" sinta_v3_overall_total] dup
    by blast
  with dup a show ?thesis by blast
qed

section \<open>Comparison view\<close>

lemma length_filter_mset:
  "mset xs = mset ys \<Longrightarrow> length (filter P xs) = length (filter P ys)"
  by (metis mset_filter size_mset)

lemma summary_counts_mset:
  "mset xs = mset ys \<Longrightarrow> summary_counts xs = summary_counts ys"
  by (simp add: summary_counts_def length_filter_mset [of xs ys])

lemma sign_counts_total:
  fixes f :: "'a \<Rightarrow> real"
  shows "length (filter (\<lambda>r. f r > 0) xs) + length (filter (\<lambda>r. f r < 0) xs)
         + length (filter (\<lambda>r. f r = 0) xs) = length xs"
  by (induction xs) auto

lemma sign_counts_summary:
  assumes "\<forall>r \<in> set xs. diff_abs r = score_selected r - score_compare r"
  shows "(length (filter (\<lambda>r. diff_abs r > 0) xs), length (filter (\<lambda>r. diff_abs r < 0) xs),
          length (filter (\<lambda>r. diff_abs r = 0) xs)) = summary_counts xs"
proof -
  have "filter (\<lambda>r. diff_abs r > 0) xs = filter (\<lambda>r. score_selected r > score_compare r) xs"
    by (rule filter_cong) (use assms in auto)
  moreover have "filter (\<lambda>r. diff_abs r < 0) xs = filter (\<lambda>r. score_selected r < score_compare r) xs"
    by (rule filter_cong) (use assms in auto)
  moreover have "filter (\<lambda>r. diff_abs r = 0) xs = filter (\<lambda>r. score_selected r = score_compare r) xs"
    by (rule filter_cong) (use assms in auto)
  ultimately show ?thesis by (simp add: summary_counts_def)
qed

lemma compare_view_eq:
  "compare_view sort_values df_comp cat_filter show_n =
     (let shown = take show_n (sort_values (\<lambda>r. \<bar>diff_abs r\<bar>) (category_filtered df_comp cat_filter))
      in (shown, length (filter (\<lambda>r. diff_abs r > 0) shown),
          length (filter (\<lambda>r. diff_abs r < 0) shown),
          length (filter (\<lambda>r. diff_abs r = 0) shown)))"
  by (simp add: compare_view_def category_filtered_def Let_def)

lemma compare_universities_df_diff:
  assumes "compare_universities_df df_md aff1 aff2 metric_col = Inr rows"
  shows "\<forall>r \<in> set rows. diff_abs r = score_selected r - score_compare r"
proof -
  obtain name_map where "rows = map (compare_row metric_col name_map)
           (merge_outer (filter (\<lambda>r. affiliation_name r = aff1) df_md)
                        (filter (\<lambda>r. affiliation_name r = aff2) df_md))"
    using compare_universities_df_rows [OF assms] by blast
  then show ?thesis by (auto simp: compare_row_diff)
qed

lemma set_category_filtered: "set (category_filtered df cat_filter) \<subseteq> set df"
  by (auto simp: category_filtered_def)

text \<open>
  Claim C1, as the code has it. For every record set, pair of affiliations, score
  column, category filter and \<open>show_n\<close> for which the comparator returns, and every
  result that \<open>sort_values\<close> may return, the rows shown are the first \<open>show_n\<close> rows of
  the category-filtered comparison sorted by \<open>|diff_abs|\<close>, and the summary triple
  counts the rows with \<open>score_selected\<close> greater than, less than and equal to
  \<open>score_compare\<close> among the rows shown. Its three counts add up to
  \<open>min show_n n\<close>, \<open>n\<close> being the number of filtered rows, and it equals the counts
  over the whole filtered set when \<open>n \<le> show_n\<close>.
\<close>

theorem C1_summary_counts:
  assumes tab: "compare_tab sort_values df_md aff_a aff_b metric_col cat_filter show_n
                 = Inr (shown, better, worse, equal)"
    and cmp: "compare_universities_df df_md aff_a aff_b metric_col = Inr df_comp"
    and filtered: "filtered = category_filtered df_comp cat_filter"
    and srt: "sorted_descending (\<lambda>r. \<bar>diff_abs r\<bar>) filtered (sort_values (\<lambda>r. \<bar>diff_abs r\<bar>) filtered)"
  shows "shown = take show_n (sort_values (\<lambda>r. \<bar>diff_abs r\<bar>) filtered)
    \<and> (better, worse, equal) = summary_counts shown
    \<and> better + worse + equal = min show_n (length filtered)
    \<and> (length filtered \<le> show_n \<longrightarrow> (better, worse, equal) = summary_counts filtered)"
proof -
  let ?s = "sort_values (\<lambda>r. \<bar>diff_abs r\<bar>) filtered"
  have view: "compare_view sort_values df_comp cat_filter show_n = (shown, better, worse, equal)"
    using tab cmp by (simp add: compare_tab_def)
  have shown: "shown = take show_n ?s"
    and counts: "better = length (filter (\<lambda>r. diff_abs r > 0) shown)"
      "worse = length (filter (\<lambda>r. diff_abs r < 0) shown)"
      "equal = length (filter (\<lambda>r. diff_abs r = 0) shown)"
    using view unfolding compare_view_eq filtered by (auto simp: Let_def)
  have ms: "mset ?s = mset filtered" and len: "length ?s = length filtered"
    using srt sorted_descending_length [OF srt] by (simp_all add: sorted_descending_def)
  have "set shown \<subseteq> set ?s" unfolding shown by (rule set_take_subset)
  also have "set ?s = set filtered" using srt by (rule sorted_descending_set)
  also have "\<dots> \<subseteq> set df_comp" unfolding filtered by (rule set_category_filtered)
  finally have "\<forall>r \<in> set shown. diff_abs r = score_selected r - score_compare r"
    using compare_universities_df_diff [OF cmp] by blast
  then have triple: "(better, worse, equal) = summary_counts shown"
    unfolding counts by (rule sign_counts_summary)
  have "better + worse + equal = length shown"
    unfolding counts by (rule sign_counts_total)
  then have total: "better + worse + equal = min show_n (length filtered)"
    unfolding shown by (simp add: len min.commute)
  have full: "(better, worse, equal) = summary_counts filtered" if "length filtered \<le> show_n"
  proof -
    have "shown = ?s" unfolding shown using that len by simp
    then show ?thesis using triple ms summary_counts_mset by metis
  qed
  show ?thesis using shown triple total full by blast
qed

theorem C1_summary_counts_witness:
  "compare_tab sort_keeping_ties
    [\<lparr>affiliation_name = ''A'', code = ''C1'', name = Some ''Articles'', area = Some ''Publikasi'',
       sinta_v3_overall_value = Some 1, sinta_v3_overall_total = Some 5, sinta_v3_3yr_total = Some 2\<rparr>,
     \<lparr>affiliation_name = ''A'', code = ''C2'', name = Some ''Grants'', area = Some ''Penelitian'',
       sinta_v3_overall_value = Some 1, sinta_v3_overall_total = Some 3, sinta_v3_3yr_total = Some 1\<rparr>,
     \<lparr>affiliation_name = ''B'', code = ''C2'', name = Some ''Grants'', area = Some ''Penelitian'',
       sinta_v3_overall_value = Some 2, sinta_v3_overall_total = Some 4, sinta_v3_3yr_total = Some 1\<rparr>,
     \<lparr>affiliation_name = ''B'', code = ''C3'', name = Some ''Patents'', area = Some ''HKI'',
       sinta_v3_overall_value = Some 0, sinta_v3_overall_total = None, sinta_v3_3yr_total = Some 0\<rparr>] ''A'' ''B'' sinta_v3_overall_total [] 10
    = Inr (
    [\<lparr>code_c = ''C1'', name_c = Some ''Articles'', category_c = Some ''Publikasi'',
       score_selected = 5, score_compare = 0, diff_abs = 5, diff_pct = None\<rparr>,
     \<lparr>code_c = ''C2'', name_c = Some ''Grants'', category_c = Some ''Penelitian'',
       score_selected = 3, score_compare = 4, diff_abs = - 1, diff_pct = Some (- 25)\<rparr>,
     \<lparr>code_c = ''C3'', name_c = Some ''Patents'', category_c = Some ''HKI'',
       score_selected = 0, score_compare = 0, diff_abs = 0, diff_pct = None\<rparr>], 1, 1, 1)
   \<and> length (category_filtered
    [\<lparr>code_c = ''C1'', name_c = Some ''Articles'', category_c = Some ''Publikasi'',
       score_selected = 5, score_compare = 0, diff_abs = 5, diff_pct = None\<rparr>,
     \<lparr>code_c = ''C2'', name_c = Some ''Grants'', category_c = Some ''Penelitian'',
       score_selected = 3, score_compare = 4, diff_abs = - 1, diff_pct = Some (- 25)\<rparr>,
     \<lparr>code_c = ''C3'', name_c = Some ''Patents'', category_c = Some ''HKI'',
       score_selected = 0, score_compare = 0, diff_abs = 0, diff_pct = None\<rparr>] []) \<le> 10
   \<and> summary_counts (category_filtered
    [\<lparr>code_c = ''C1'', name_c = Some ''Articles'', category_c = Some ''Publikasi'',
       score_selected = 5, score_compare = 0, diff_abs = 5, diff_pct = None\<rparr>,
     \<lparr>code_c = ''C2'', name_c = Some ''Grants'', category_c = Some ''Penelitian'',
       score_selected = 3, score_compare = 4, diff_abs = - 1, diff_pct = Some (- 25)\<rparr>,
     \<lparr>code_c = ''C3'', name_c = Some ''Patents'', category_c = Some ''HKI'',
       score_selected = 0, score_compare = 0, diff_abs = 0, diff_pct = None\<rparr>] []) = (1, 1, 1)"
proof -
  let ?df = "[\<lparr>affiliation_name = ''A'', code = ''C1'', name = Some ''Articles'', area = Some ''Publikasi'',
       sinta_v3_overall_value = Some 1, sinta_v3_overall_total = Some 5, sinta_v3_3yr_total = Some 2\<rparr>,
     \<lparr>affiliation_name = ''A'', code = ''C2'', name = Some ''Grants'', area = Some ''Penelitian'',
       sinta_v3_overall_value = Some 1, sinta_v3_overall_total = Some 3, sinta_v3_3yr_total = Some 1\<rparr>,
     \<lparr>affiliation_name = ''B'', code = ''C2'', name = Some ''Grants'', area = Some ''Penelitian'',
       sinta_v3_overall_value = Some 2, sinta_v3_overall_total = Some 4, sinta_v3_3yr_total = Some 1\<rparr>,
     \<lparr>affiliation_name = ''B'', code = ''C3'', name = Some ''Patents'', area = Some ''HKI'',
       sinta_v3_overall_value = Some 0, sinta_v3_overall_total = None, sinta_v3_3yr_total = Some 0\<rparr>]"
  let ?rows = "[\<lparr>code_c = ''C1'', name_c = Some ''Articles'', category_c = Some ''Publikasi'',
       score_selected = 5, score_compare = 0, diff_abs = 5, diff_pct = None\<rparr>,
     \<lparr>code_c = ''C2'', name_c = Some ''Grants'', category_c = Some ''Penelitian'',
       score_selected = 3, score_compare = 4, diff_abs = - 1, diff_pct = Some (- 25)\<rparr>,
     \<lparr>code_c = ''C3'', name_c = Some ''Patents'', category_c = Some ''HKI'',
       score_selected = 0, score_compare = 0, diff_abs = 0, diff_pct = None\<rparr>]"
  have tab: "compare_tab sort_keeping_ties ?df ''A'' ''B'' sinta_v3_overall_total [] 10
      = Inr (?rows, 1, 1, 1)"
    by code_simp
  have cmp: "compare_universities_df ?df ''A'' ''B'' sinta_v3_overall_total = Inr ?rows"
    by code_simp
  have srt: "sorted_descending (\<lambda>r. \<bar>diff_abs r\<bar>) (category_filtered ?rows [])
      (sort_keeping_ties (\<lambda>r. \<bar>diff_abs r\<bar>) (category_filtered ?rows []))"
    by (rule sorted_descending_keeping_ties)
  have all: "length (category_filtered ?rows []) \<le> 10"
    by (simp add: category_filtered_def)
  have "(1, 1, 1) = summary_counts (category_filtered ?rows [])"
    using C1_summary_counts [OF tab cmp refl srt] all by blast
  with tab all show ?thesis by simp
qed

text \<open>
  Claim C1 as stated fails: the counts are taken after \<open>head(show_n)\<close>. With eleven
  metrics M01..M11 of A scoring 0, 1, .., 10, none of B, no category filter and
  \<open>show_n = 10\<close>, the whole comparison has 10 rows where A is higher and 1 where both
  are equal, while the summary shown is (10, 0, 0): the tie M01 has the smallest
  \<open>|diff_abs|\<close> and is cut off before counting. Any sort leaves ten of the eleven
  rows, so the three counts add up to 10 instead of 11 whatever the order.
\<close>

theorem C1_truncated_summary_counterexample:
  "map_sum id snd (compare_tab sort_keeping_ties
    [\<lparr>affiliation_name = ''A'', code = ''M01'', name = Some ''Metric'', area = Some ''Publikasi'',
       sinta_v3_overall_value = Some 1, sinta_v3_overall_total = Some 0, sinta_v3_3yr_total = Some 0\<rparr>,
     \<lparr>affiliation_name = ''A'', code = ''M02'', name = Some ''Metric'', area = Some ''Publikasi'',
       sinta_v3_overall_value = Some 1, sinta_v3_overall_total = Some 1, sinta_v3_3yr_total = Some 0\<rparr>,
     \<lparr>affiliation_name = ''A'', code = ''M03'', name = Some ''Metric'', area = Some ''Publikasi'',
       sinta_v3_overall_value = Some 1, sinta_v3_overall_total = Some 2, sinta_v3_3yr_total = Some 0\<rparr>,
     \<lparr>affiliation_name = ''A'', code = ''M04'', name = Some ''Metric'', area = Some ''Publikasi'',
       sinta_v3_overall_value = Some 1, sinta_v3_overall_total = Some 3, sinta_v3_3yr_total = Some 0\<rparr>,
     \<lparr>affiliation_name = ''A'', code = ''M05'', name = Some ''Metric'', area = Some ''Publikasi'',
       sinta_v3_overall_value = Some 1, sinta_v3_overall_total = Some 4, sinta_v3_3yr_total = Some 0\<rparr>,
     \<lparr>affiliation_name = ''A'', code = ''M06'', name = Some ''Metric'', area = Some ''Publikasi'',
       sinta_v3_overall_value = Some 1, sinta_v3_overall_total = Some 5, sinta_v3_3yr_total = Some 0\<rparr>,
     \<lparr>affiliation_name = ''A'', code = ''M07'', name = Some ''Metric'', area = Some ''Publikasi'',
       sinta_v3_overall_value = Some 1, sinta_v3_overall_total = Some 6, sinta_v3_3yr_total = Some 0\<rparr>,
     \<lparr>affiliation_name = ''A'', code = ''M08'', name = Some ''Metric'', area = Some ''Publikasi'',
       sinta_v3_overall_value = Some 1, sinta_v3_overall_total = Some 7, sinta_v3_3yr_total = Some 0\<rparr>,
     \<lparr>affiliation_name = ''A'', code = ''M09'', name = Some ''Metric'', area = Some ''Publikasi'',
       sinta_v3_overall_value = Some 1, sinta_v3_overall_total = Some 8, sinta_v3_3yr_total = Some 0\<rparr>,
     \<lparr>affiliation_name = ''A'', code = ''M10'', name = Some ''Metric'', area = Some ''Publikasi'',
       sinta_v3_overall_value = Some 1, sinta_v3_overall_total = Some 9, sinta_v3_3yr_total = Some 0\<rparr>,
     \<lparr>affiliation_name = ''A'', code = ''M11'', name = Some ''Metric'', area = Some ''Publikasi'',
       sinta_v3_overall_value = Some 1, sinta_v3_overall_total = Some 10, sinta_v3_3yr_total = Some 0\<rparr>] ''A'' ''B'' sinta_v3_overall_total [] 10)
    = Inr (10, 0, 0)
   \<and> map_sum id (\<lambda>df_comp. summary_counts (category_filtered df_comp []))
      (compare_universities_df
    [\<lparr>affiliation_name = ''A'', code = ''M01'', name = Some ''Metric'', area = Some ''Publikasi'',
       sinta_v3_overall_value = Some 1, sinta_v3_overall_total = Some 0, sinta_v3_3yr_total = Some 0\<rparr>,
     \<lparr>affiliation_name = ''A'', code = ''M02'', name = Some ''Metric'', area = Some ''Publikasi'',
       sinta_v3_overall_value = Some 1, sinta_v3_overall_total = Some 1, sinta_v3_3yr_total = Some 0\<rparr>,
     \<lparr>affiliation_name = ''A'', code = ''M03'', name = Some ''Metric'', area = Some ''Publikasi'',
       sinta_v3_overall_value = Some 1, sinta_v3_overall_total = Some 2, sinta_v3_3yr_total = Some 0\<rparr>,
     \<lparr>affiliation_name = ''A'', code = ''M04'', name = Some ''Metric'', area = Some ''Publikasi'',
       sinta_v3_overall_value = Some 1, sinta_v3_overall_total = Some 3, sinta_v3_3yr_total = Some 0\<rparr>,
     \<lparr>affiliation_name = ''A'', code = ''M05'', name = Some ''Metric'', area = Some ''Publikasi'',
       sinta_v3_overall_value = Some 1, sinta_v3_overall_total = Some 4, sinta_v3_3yr_total = Some 0\<rparr>,
     \<lparr>affiliation_name = ''A'', code = ''M06'', name = Some ''Metric'', area = Some ''Publikasi'',
       sinta_v3_overall_value = Some 1, sinta_v3_overall_total = Some 5, sinta_v3_3yr_total = Some 0\<rparr>,
     \<lparr>affiliation_name = ''A'', code = ''M07'', name = Some ''Metric'', area = Some ''Publikasi'',
       sinta_v3_overall_value = Some 1, sinta_v3_overall_total = Some 6, sinta_v3_3yr_total = Some 0\<rparr>,
     \<lparr>affiliation_name = ''A'', code = ''M08'', name = Some ''Metric'', area = Some ''Publikasi'',
       sinta_v3_overall_value = Some 1, sinta_v3_overall_total = Some 7, sinta_v3_3yr_total = Some 0\<rparr>,
     \<lparr>affiliation_name = ''A'', code = ''M09'', name = Some ''Metric'', area = Some ''Publikasi'',
       sinta_v3_overall_value = Some 1, sinta_v3_overall_total = Some 8, sinta_v3_3yr_total = Some 0\<rparr>,
     \<lparr>affiliation_name = ''A'', code = ''M10'', name = Some ''Metric'', area = Some ''Publikasi'',
       sinta_v3_overall_value = Some 1, sinta_v3_overall_total = Some 9, sinta_v3_3yr_total = Some 0\<rparr>,
     \<lparr>affiliation_name = ''A'', code = ''M11'', name = Some ''Metric'', area = Some ''Publikasi'',
       sinta_v3_overall_value = Some 1, sinta_v3_overall_total = Some 10, sinta_v3_3yr_total = Some 0\<rparr>] ''A'' ''B'' sinta_v3_overall_total)
    = Inr (10, 0, 1)"
  by code_simp

end
